theory Spec2Isabelle
  imports Main
begin

section \<open>Text and bytes\<close>

text \<open>
  The program \<^verbatim>\<open>csv_to_json.py\<close> is one function, \<^verbatim>\<open>main\<close>, built from four
  library calls: \<^verbatim>\<open>open\<close>, \<^verbatim>\<open>csv.DictReader\<close>, \<^verbatim>\<open>list\<close> and \<^verbatim>\<open>json.dump\<close>.
  The embedding follows \<^verbatim>\<open>main\<close> line by line and models each library call as
  CPython 3.11 executes it with the arguments the program passes (the \<^verbatim>\<open>excel\<close>
  dialect of the \<^verbatim>\<open>csv\<close> module, \<^verbatim>\<open>indent=4\<close> and \<^verbatim>\<open>ensure_ascii=True\<close> for
  \<^verbatim>\<open>json\<close>, text files with universal newlines, \<^verbatim>\<open>os.linesep\<close> a line feed).

  A file holds bytes (\<^typ>\<open>char\<close> is a byte). A Python \<^verbatim>\<open>str\<close> is a list of Unicode
  code points, each a natural number. Paths and the lines printed on the standard
  output are kept as opaque strings: the program only concatenates them.
\<close>

type_synonym bytes = string
type_synonym ustr = "nat list"
type_synonym path = string

abbreviation LF :: nat where "LF \<equiv> 10"
abbreviation CR :: nat where "CR \<equiv> 13"
abbreviation QUOTE :: nat where "QUOTE \<equiv> 34"
abbreviation COMMA :: nat where "COMMA \<equiv> 44"

definition ustr_of :: "string \<Rightarrow> ustr" where
  "ustr_of s = map of_char s"

text \<open>
  \<^verbatim>\<open>open(..., encoding='utf-8')\<close> decodes strictly: a byte sequence that is not
  well-formed UTF-8 (a stray continuation byte, an overlong form, a surrogate, a code
  point above U+10FFFF, a truncated sequence) raises \<^verbatim>\<open>UnicodeDecodeError\<close>, here
  \<^const>\<open>None\<close>. A byte order mark is not stripped.
\<close>

definition continuation :: "nat \<Rightarrow> bool" where
  "continuation b = (128 \<le> b \<and> b < 192)"

fun utf8_decode :: "nat list \<Rightarrow> ustr option" where
  "utf8_decode [] = Some []"
| "utf8_decode (b # bs) =
     (if b < 128 then map_option ((#) b) (utf8_decode bs)
      else if 194 \<le> b \<and> b < 224 then
        (case bs of
           b1 # r \<Rightarrow>
             if continuation b1
             then map_option ((#) ((b - 192) * 64 + (b1 - 128))) (utf8_decode r)
             else None
         | _ \<Rightarrow> None)
      else if 224 \<le> b \<and> b < 240 then
        (case bs of
           b1 # b2 # r \<Rightarrow>
             if continuation b1 \<and> continuation b2
                \<and> (if b = 224 then 160 \<le> b1 else True)
                \<and> (if b = 237 then b1 < 160 else True)
             then map_option ((#) ((b - 224) * 4096 + (b1 - 128) * 64 + (b2 - 128)))
                    (utf8_decode r)
             else None
         | _ \<Rightarrow> None)
      else if 240 \<le> b \<and> b < 245 then
        (case bs of
           b1 # b2 # b3 # r \<Rightarrow>
             if continuation b1 \<and> continuation b2 \<and> continuation b3
                \<and> (if b = 240 then 144 \<le> b1 else True)
                \<and> (if b = 244 then b1 < 144 else True)
             then map_option
                    ((#) ((b - 240) * 262144 + (b1 - 128) * 4096 + (b2 - 128) * 64 + (b3 - 128)))
                    (utf8_decode r)
             else None
         | _ \<Rightarrow> None)
      else None)"

definition decode :: "bytes \<Rightarrow> ustr option" where
  "decode bs = utf8_decode (map of_char bs)"

text \<open>
  The input is opened without \<^verbatim>\<open>newline=''\<close>, so the text layer translates
  \<^verbatim>\<open>\r\n\<close> and a lone \<^verbatim>\<open>\r\<close> to \<^verbatim>\<open>\n\<close> before anything reaches the reader,
  and iterating the file yields the lines, each with its final \<^verbatim>\<open>\n\<close> (the last
  line has none when the text does not end with one). The translation is written as the
  decoder does it: a \<^verbatim>\<open>\r\<close> becomes \<^verbatim>\<open>\n\<close> at once, and a \<^verbatim>\<open>\n\<close> that comes right
  after a \<^verbatim>\<open>\r\<close> is dropped.
\<close>

fun translate_newlines :: "bool \<Rightarrow> ustr \<Rightarrow> ustr" where
  "translate_newlines pendingcr [] = []"
| "translate_newlines pendingcr (c # cs) =
     (if c = CR then LF # translate_newlines True cs
      else if c = LF \<and> pendingcr then translate_newlines False cs
      else c # translate_newlines False cs)"

definition universal_newlines :: "ustr \<Rightarrow> ustr" where
  "universal_newlines txt = translate_newlines False txt"

fun readlines :: "ustr \<Rightarrow> ustr list" where
  "readlines [] = []"
| "readlines (c # cs) =
     (if c = LF then [c] # readlines cs
      else (case readlines cs of
              [] \<Rightarrow> [[c]]
            | l # ls \<Rightarrow> (c # l) # ls))"

section \<open>The reader of the csv module\<close>

text \<open>
  \<^verbatim>\<open>csv.DictReader(csv_file)\<close> builds a \<^verbatim>\<open>csv.reader\<close> with the default dialect:
  delimiter \<^verbatim>\<open>,\<close>, quote character \<^verbatim>\<open>"\<close>, \<^verbatim>\<open>doublequote\<close> on, no escape
  character, \<^verbatim>\<open>skipinitialspace\<close> off, \<^verbatim>\<open>strict\<close> off, minimal quoting. The state
  machine below is \<^verbatim>\<open>parse_process_char\<close> of \<^verbatim>\<open>Modules/_csv.c\<close> with these
  settings: the three states that only an escape character reaches are left out, and so
  is the error of the strict mode. The reader holds the field being collected and the
  fields of the record saved so far.
\<close>

datatype parser_state =
  START_RECORD | START_FIELD | IN_FIELD | IN_QUOTED_FIELD | QUOTE_IN_QUOTED_FIELD | EAT_CRNL

record reader =
  state :: parser_state
  field :: ustr
  record_fields :: "ustr list"

text \<open>A character of a line, or the end-of-line mark the reader feeds itself after each line.\<close>

datatype inchar = Ch nat | EOL

text \<open>\<^verbatim>\<open>csv.field_size_limit()\<close>: the default, which the program never changes.\<close>

definition field_limit :: nat where
  "field_limit = 131072"

definition parse_reset :: reader where
  "parse_reset = \<lparr>state = START_RECORD, field = [], record_fields = []\<rparr>"

definition parse_save_field :: "reader \<Rightarrow> reader" where
  "parse_save_field self = self\<lparr>record_fields := record_fields self @ [field self], field := []\<rparr>"

text \<open>\<^const>\<open>None\<close> is \<^verbatim>\<open>csv.Error\<close> (field larger than field limit).\<close>

definition parse_add_char :: "reader \<Rightarrow> nat \<Rightarrow> reader option" where
  "parse_add_char self c =
     (if field_limit \<le> length (field self) then None
      else Some (self\<lparr>field := field self @ [c]\<rparr>))"

definition start_field :: "reader \<Rightarrow> inchar \<Rightarrow> reader option" where
  "start_field self c =
     (case c of
        EOL \<Rightarrow> Some ((parse_save_field self)\<lparr>state := START_RECORD\<rparr>)
      | Ch x \<Rightarrow>
          if x = LF \<or> x = CR then Some ((parse_save_field self)\<lparr>state := EAT_CRNL\<rparr>)
          else if x = QUOTE then Some (self\<lparr>state := IN_QUOTED_FIELD\<rparr>)
          else if x = COMMA then Some (parse_save_field self)
          else map_option (\<lambda>r. r\<lparr>state := IN_FIELD\<rparr>) (parse_add_char self x))"

definition parse_process_char :: "reader \<Rightarrow> inchar \<Rightarrow> reader option" where
  "parse_process_char self c =
     (case state self of
        START_RECORD \<Rightarrow>
          (case c of
             EOL \<Rightarrow> Some self
           | Ch x \<Rightarrow>
               if x = LF \<or> x = CR then Some (self\<lparr>state := EAT_CRNL\<rparr>)
               else start_field (self\<lparr>state := START_FIELD\<rparr>) c)
      | START_FIELD \<Rightarrow> start_field self c
      | IN_FIELD \<Rightarrow>
          (case c of
             EOL \<Rightarrow> Some ((parse_save_field self)\<lparr>state := START_RECORD\<rparr>)
           | Ch x \<Rightarrow>
               if x = LF \<or> x = CR then Some ((parse_save_field self)\<lparr>state := EAT_CRNL\<rparr>)
               else if x = COMMA then Some ((parse_save_field self)\<lparr>state := START_FIELD\<rparr>)
               else parse_add_char self x)
      | IN_QUOTED_FIELD \<Rightarrow>
          (case c of
             EOL \<Rightarrow> Some self
           | Ch x \<Rightarrow>
               if x = QUOTE then Some (self\<lparr>state := QUOTE_IN_QUOTED_FIELD\<rparr>)
               else parse_add_char self x)
      | QUOTE_IN_QUOTED_FIELD \<Rightarrow>
          (case c of
             EOL \<Rightarrow> Some ((parse_save_field self)\<lparr>state := START_RECORD\<rparr>)
           | Ch x \<Rightarrow>
               if x = QUOTE
               then map_option (\<lambda>r. r\<lparr>state := IN_QUOTED_FIELD\<rparr>) (parse_add_char self x)
               else if x = COMMA then Some ((parse_save_field self)\<lparr>state := START_FIELD\<rparr>)
               else if x = LF \<or> x = CR
               then Some ((parse_save_field self)\<lparr>state := EAT_CRNL\<rparr>)
               else map_option (\<lambda>r. r\<lparr>state := IN_FIELD\<rparr>) (parse_add_char self x))
      | EAT_CRNL \<Rightarrow>
          (case c of
             EOL \<Rightarrow> Some (self\<lparr>state := START_RECORD\<rparr>)
           | Ch x \<Rightarrow> if x = LF \<or> x = CR then Some self else None))"

text \<open>
  \<^verbatim>\<open>Reader_iternext\<close> feeds the characters of a line, then the end-of-line mark, and
  goes on to the next line while the state is not \<^const>\<open>START_RECORD\<close>.
\<close>

fun feed :: "reader \<Rightarrow> ustr \<Rightarrow> reader option" where
  "feed self [] = Some self"
| "feed self (c # cs) =
     (case parse_process_char self (Ch c) of
        None \<Rightarrow> None
      | Some self' \<Rightarrow> feed self' cs)"

definition feed_line :: "reader \<Rightarrow> ustr \<Rightarrow> reader option" where
  "feed_line self line =
     (case feed self line of
        None \<Rightarrow> None
      | Some self' \<Rightarrow> parse_process_char self' EOL)"

text \<open>
  \<^verbatim>\<open>list(csv.reader(lines))\<close>: every record the reader yields, or \<^const>\<open>None\<close> when
  it raises \<^verbatim>\<open>csv.Error\<close>. The first argument is the reader in the middle of a record
  (\<^const>\<open>parse_reset\<close> at the start of each call of \<^verbatim>\<open>Reader_iternext\<close>). At the end
  of the input a record is still yielded when a field has been started or a quoted field
  is open: the reader is not strict.
\<close>

fun reader_rows :: "reader \<Rightarrow> ustr list \<Rightarrow> ustr list list option" where
  "reader_rows self [] =
     (if field self = [] \<and> state self \<noteq> IN_QUOTED_FIELD then Some []
      else Some [record_fields (parse_save_field self)])"
| "reader_rows self (line # rest) =
     (case feed_line self line of
        None \<Rightarrow> None
      | Some self' \<Rightarrow>
          if state self' = START_RECORD
          then map_option ((#) (record_fields self')) (reader_rows parse_reset rest)
          else reader_rows self' rest)"

definition csv_rows :: "ustr \<Rightarrow> ustr list list option" where
  "csv_rows txt = reader_rows parse_reset (readlines (universal_newlines txt))"

section \<open>DictReader\<close>

text \<open>
  A Python \<^verbatim>\<open>dict\<close> keeps its keys in insertion order; assigning to a key that is
  present replaces the value where it stands. The keys of a row are column names or
  \<^verbatim>\<open>None\<close> (the \<^verbatim>\<open>restkey\<close>); the values are cells, \<^verbatim>\<open>None\<close> (the \<^verbatim>\<open>restval\<close>)
  or the list of the cells beyond the header.
\<close>

datatype pykey = KStr ustr | KNone
datatype pyval = VStr ustr | VNone | VList "ustr list"
type_synonym pydict = "(pykey \<times> pyval) list"

fun dict_set :: "pydict \<Rightarrow> pykey \<Rightarrow> pyval \<Rightarrow> pydict" where
  "dict_set [] k v = [(k, v)]"
| "dict_set ((k', v') # d) k v =
     (if k' = k then (k, v) # d else (k', v') # dict_set d k v)"

definition dict_zip :: "ustr list \<Rightarrow> ustr list \<Rightarrow> pydict" where
  "dict_zip fieldnames row =
     foldl (\<lambda>d (k, v). dict_set d (KStr k) (VStr v)) [] (zip fieldnames row)"

text \<open>The body of \<^verbatim>\<open>DictReader.__next__\<close> after a row that is not \<^verbatim>\<open>[]\<close> was read.\<close>

definition row_dict :: "ustr list \<Rightarrow> ustr list \<Rightarrow> pydict" where
  "row_dict fieldnames row =
     (let d = dict_zip fieldnames row;
          lf = length fieldnames;
          lr = length row
      in if lf < lr then dict_set d KNone (VList (drop lf row))
         else if lr < lf then foldl (\<lambda>d k. dict_set d (KStr k) VNone) d (drop lr fieldnames)
         else d)"

text \<open>
  \<^verbatim>\<open>list(csv.DictReader(csv_file))\<close>: the first record of the reader is the field
  names, whatever it is; of the others, those that are \<^verbatim>\<open>[]\<close> (blank lines) are
  skipped and every other one becomes a \<^verbatim>\<open>dict\<close>.
\<close>

definition DictReader_list :: "ustr \<Rightarrow> pydict list option" where
  "DictReader_list txt =
     (case csv_rows txt of
        None \<Rightarrow> None
      | Some [] \<Rightarrow> Some []
      | Some (fieldnames # rows) \<Rightarrow>
          Some (map (row_dict fieldnames) (filter (\<lambda>row. row \<noteq> []) rows)))"

section \<open>json.dump with indent=4\<close>

text \<open>
  With \<^verbatim>\<open>ensure_ascii\<close> on, a string is written between double quotes; the
  characters from space to tilde stand for themselves but for \<^verbatim>\<open>"\<close> and \<^verbatim>\<open>\\<close>;
  every other character is escaped, one beyond U+FFFF as a surrogate pair.
\<close>

definition hex_digit :: "nat \<Rightarrow> char" where
  "hex_digit n = (''0123456789abcdef'') ! (n mod 16)"

definition hex4 :: "nat \<Rightarrow> string" where
  "hex4 n = [hex_digit (n div 4096), hex_digit (n div 256), hex_digit (n div 16), hex_digit n]"

definition escape_char :: "nat \<Rightarrow> string" where
  "escape_char c =
     (if c = 34 then [CHR 0x5C, CHR 0x22]
      else if c = 92 then [CHR 0x5C, CHR 0x5C]
      else if c = 10 then [CHR 0x5C, CHR ''n'']
      else if c = 13 then [CHR 0x5C, CHR ''r'']
      else if c = 9 then [CHR 0x5C, CHR ''t'']
      else if c = 8 then [CHR 0x5C, CHR ''b'']
      else if c = 12 then [CHR 0x5C, CHR ''f'']
      else if 32 \<le> c \<and> c < 127 then [char_of c]
      else if c < 65536 then CHR 0x5C # CHR ''u'' # hex4 c
      else CHR 0x5C # CHR ''u'' # hex4 (55296 + ((c - 65536) div 1024) mod 1024)
           @ CHR 0x5C # CHR ''u'' # hex4 (56320 + (c - 65536) mod 1024))"

definition encode_str :: "ustr \<Rightarrow> string" where
  "encode_str s = CHR 0x22 # concat (map escape_char s) @ [CHR 0x22]"

definition newline_indent :: "nat \<Rightarrow> string" where
  "newline_indent level = CHR 0x0A # replicate (4 * level) CHR '' ''"

fun join :: "string \<Rightarrow> string list \<Rightarrow> string" where
  "join sep [] = []"
| "join sep [x] = x"
| "join sep (x # y # ys) = x @ sep @ join sep (y # ys)"

text \<open>
  A list or a dict at nesting depth \<open>level\<close>: empty, it is written \<^verbatim>\<open>[]\<close> or \<^verbatim>\<open>{}\<close>;
  otherwise each item stands on a line of its own, indented one level deeper, and the
  closing bracket on a line at the depth of the container.
\<close>

definition container :: "char \<Rightarrow> char \<Rightarrow> nat \<Rightarrow> string list \<Rightarrow> string" where
  "container l r level items =
     (if items = [] then [l, r]
      else l # newline_indent (level + 1)
           @ join (CHR '','' # newline_indent (level + 1)) items
           @ newline_indent level @ [r])"

fun encode_val :: "nat \<Rightarrow> pyval \<Rightarrow> string" where
  "encode_val level (VStr s) = encode_str s"
| "encode_val level VNone = ''null''"
| "encode_val level (VList xs) = container CHR ''['' CHR '']'' level (map encode_str xs)"

fun encode_key :: "pykey \<Rightarrow> string" where
  "encode_key (KStr s) = encode_str s"
| "encode_key KNone = encode_str (ustr_of ''null'')"

definition encode_dict :: "nat \<Rightarrow> pydict \<Rightarrow> string" where
  "encode_dict level d =
     container CHR ''{'' CHR ''}'' level
       (map (\<lambda>(k, v). encode_key k @ '': '' @ encode_val (level + 1) v) d)"

definition json_dump :: "pydict list \<Rightarrow> bytes" where
  "json_dump data = container CHR ''['' CHR '']'' 0 (map (encode_dict 1) data)"

section \<open>Files\<close>

text \<open>
  What \<^verbatim>\<open>open\<close> finds at a path: nothing, a directory or a regular file with its
  bytes and whether the process may read and write it. For a path where nothing is,
  \<open>create_error\<close> says what creating a file there raises (\<^verbatim>\<open>FileNotFoundError\<close> when
  the parent directory is missing, \<^verbatim>\<open>PermissionError\<close> when it is read-only), if
  anything. Only the first two exceptions are handled by the program.
\<close>

datatype pyexc =
  FileNotFoundError | PermissionError | IsADirectoryError | UnicodeDecodeError | CsvError

record regular =
  content :: bytes
  readable :: bool
  writable :: bool

datatype entry = File regular | Directory

record fsys =
  entries :: "path \<Rightarrow> entry option"
  create_error :: "path \<Rightarrow> pyexc option"

datatype mode = Reading | Writing

text \<open>The calls the program makes on files, in the order it makes them.\<close>

datatype event =
  Open path mode | ReadAll path | WriteAll path bytes | Close path

record world =
  fs :: fsys
  stdout :: "string list"
  events :: "event list"

definition emit :: "event \<Rightarrow> world \<Rightarrow> world" where
  "emit e w = w\<lparr>events := events w @ [e]\<rparr>"

definition print :: "string \<Rightarrow> world \<Rightarrow> world" where
  "print line w = w\<lparr>stdout := stdout w @ [line]\<rparr>"

definition open_r :: "fsys \<Rightarrow> path \<Rightarrow> pyexc + bytes" where
  "open_r f p =
     (case entries f p of
        None \<Rightarrow> Inl FileNotFoundError
      | Some Directory \<Rightarrow> Inl IsADirectoryError
      | Some (File r) \<Rightarrow> if readable r then Inr (content r) else Inl PermissionError)"

text \<open>Opening with mode \<^verbatim>\<open>'w'\<close> creates the file or truncates it.\<close>

definition open_w :: "fsys \<Rightarrow> path \<Rightarrow> pyexc + fsys" where
  "open_w f p =
     (case entries f p of
        None \<Rightarrow>
          (case create_error f p of
             Some e \<Rightarrow> Inl e
           | None \<Rightarrow>
               Inr (f\<lparr>entries := (entries f)
                      (p \<mapsto> File \<lparr>content = [], readable = True, writable = True\<rparr>)\<rparr>))
      | Some Directory \<Rightarrow> Inl IsADirectoryError
      | Some (File r) \<Rightarrow>
          if writable r
          then Inr (f\<lparr>entries := (entries f)(p \<mapsto> File (r\<lparr>content := []\<rparr>))\<rparr>)
          else Inl PermissionError)"

definition write_all :: "fsys \<Rightarrow> path \<Rightarrow> bytes \<Rightarrow> fsys" where
  "write_all f p bs =
     (case entries f p of
        Some (File r) \<Rightarrow> f\<lparr>entries := (entries f)(p \<mapsto> File (r\<lparr>content := content r @ bs\<rparr>))\<rparr>
      | _ \<Rightarrow> f)"

section \<open>The program\<close>

text \<open>
  The first \<^verbatim>\<open>with\<close> block: open the input, read and parse all of it, close it.
  The file is closed on every way out of the block.
\<close>

definition read_input :: "path \<Rightarrow> world \<Rightarrow> (pyexc + pydict list) \<times> world" where
  "read_input input_csv w =
     (let w1 = emit (Open input_csv Reading) w in
      case open_r (fs w1) input_csv of
        Inl e \<Rightarrow> (Inl e, w1)
      | Inr bs \<Rightarrow>
          (let w2 = emit (Close input_csv) (emit (ReadAll input_csv) w1) in
           case decode bs of
             None \<Rightarrow> (Inl UnicodeDecodeError, w2)
           | Some txt \<Rightarrow>
               (case DictReader_list txt of
                  None \<Rightarrow> (Inl CsvError, w2)
                | Some data \<Rightarrow> (Inr data, w2))))"

text \<open>The second \<^verbatim>\<open>with\<close> block: open the output, write the JSON text, close it.\<close>

definition write_output :: "path \<Rightarrow> pydict list \<Rightarrow> world \<Rightarrow> pyexc option \<times> world" where
  "write_output output_json data w =
     (let w1 = emit (Open output_json Writing) w in
      case open_w (fs w1) output_json of
        Inl e \<Rightarrow> (Some e, w1)
      | Inr f \<Rightarrow>
          (let bs = json_dump data;
               w2 = emit (WriteAll output_json bs) (w1\<lparr>fs := write_all f output_json bs\<rparr>)
           in (None, emit (Close output_json) w2)))"

text \<open>How the process ends: \<^verbatim>\<open>main\<close> returns, \<^verbatim>\<open>sys.exit\<close> is called, or an
  exception that no handler catches reaches the interpreter, which prints a traceback
  on the standard error and exits with status 1.\<close>

datatype ending = Returned | SysExit nat | Uncaught pyexc

fun exit_status :: "ending \<Rightarrow> nat" where
  "exit_status Returned = 0"
| "exit_status (SysExit n) = n"
| "exit_status (Uncaught e) = 1"

definition usage :: string where
  "usage = ''Usage: python csv_to_json.py <input_csv> <output_json>''"

definition success_line :: "path \<Rightarrow> path \<Rightarrow> string" where
  "success_line input_csv output_json =
     ''Successfully converted '' @ input_csv @ '' to '' @ output_json"

definition not_found_line :: "path \<Rightarrow> string" where
  "not_found_line input_csv = ''Error: The file '' @ input_csv @ '' was not found.''"

definition permission_line :: "path \<Rightarrow> path \<Rightarrow> string" where
  "permission_line input_csv output_json =
     ''Error: Permission denied when accessing '' @ input_csv @ '' or '' @ output_json @ ''.''"

definition handle :: "path \<Rightarrow> path \<Rightarrow> pyexc \<Rightarrow> world \<Rightarrow> ending \<times> world" where
  "handle input_csv output_json e w =
     (if e = FileNotFoundError then (SysExit 1, print (not_found_line input_csv) w)
      else if e = PermissionError
      then (SysExit 1, print (permission_line input_csv output_json) w)
      else (Uncaught e, w))"

definition main :: "string list \<Rightarrow> world \<Rightarrow> ending \<times> world" where
  "main argv w =
     (if length argv \<noteq> 3 then (SysExit 1, print usage w)
      else
        (let input_csv = argv ! 1;
             output_json = argv ! 2
         in case read_input input_csv w of
              (Inl e, w1) \<Rightarrow> handle input_csv output_json e w1
            | (Inr data, w1) \<Rightarrow>
                (case write_output output_json data w1 of
                   (Some e, w2) \<Rightarrow> handle input_csv output_json e w2
                 | (None, w2) \<Rightarrow>
                     (Returned, print (success_line input_csv output_json) w2))))"

section \<open>Reading results off a run\<close>

definition file_content :: "fsys \<Rightarrow> path \<Rightarrow> bytes option" where
  "file_content f p =
     (case entries f p of
        Some (File r) \<Rightarrow> Some (content r)
      | _ \<Rightarrow> None)"

text \<open>A world for examples: the listed regular files and nothing else, in a directory
  where files can be created; nothing printed and no file call made yet.\<close>

definition world_of :: "(path \<times> regular) list \<Rightarrow> world" where
  "world_of files =
     \<lparr>fs = \<lparr>entries = (\<lambda>p. map_option File (map_of files p)), create_error = (\<lambda>p. None)\<rparr>,
      stdout = [], events = []\<rparr>"

definition plain_file :: "bytes \<Rightarrow> regular" where
  "plain_file bs = \<lparr>content = bs, readable = True, writable = True\<rparr>"

section \<open>The scenario of the specification\<close>

text \<open>
  The input of the concrete scenario, three lines each ended by a line feed; what
  \<^verbatim>\<open>json.dump\<close> with \<^verbatim>\<open>indent=4\<close> writes for it; and the text the specification
  displays as the expected output, with one object per line.
\<close>

definition scenario_csv :: bytes where
  "scenario_csv = ''name,age\<newline>Alice,30\<newline>Bob,25\<newline>''"

definition scenario_json :: bytes where
  "scenario_json =
     ''[\<newline>    {\<newline>        \"name\": \"Alice\",\<newline>        \"age\": \"30\"\<newline>    },\<newline>    {\<newline>        \"name\": \"Bob\",\<newline>        \"age\": \"25\"\<newline>    }\<newline>]''"

definition spec_displayed_json :: bytes where
  "spec_displayed_json =
     ''[\<newline>    {\"name\": \"Alice\", \"age\": \"30\"},\<newline>    {\"name\": \"Bob\", \"age\": \"25\"}\<newline>]''"

section \<open>Runs of the program\<close>

lemma read_input_fails:
  "open_r (fs w) p = Inl e \<Longrightarrow> read_input p w = (Inl e, emit (Open p Reading) w)"
  by (simp add: read_input_def emit_def)

lemma read_input_ok:
  "open_r (fs w) p = Inr bs \<Longrightarrow> decode bs = Some txt \<Longrightarrow> DictReader_list txt = Some data \<Longrightarrow>
   read_input p w = (Inr data, w\<lparr>events := events w @ [Open p Reading, ReadAll p, Close p]\<rparr>)"
  by (simp add: read_input_def emit_def)

lemma write_output_ok:
  "open_w (fs w) p = Inr f \<Longrightarrow>
   write_output p data w =
     (None, w\<lparr>fs := write_all f p (json_dump data),
              events := events w @ [Open p Writing, WriteAll p (json_dump data), Close p]\<rparr>)"
  by (simp add: write_output_def emit_def Let_def)

lemma write_output_fails:
  "open_w (fs w) p = Inl e \<Longrightarrow> write_output p data w = (Some e, emit (Open p Writing) w)"
  by (simp add: write_output_def emit_def)

lemma file_content_written:
  "open_w f0 p = Inr f \<Longrightarrow> file_content (write_all f p bs) p = Some bs"
  by (auto simp: open_w_def write_all_def file_content_def
           split: option.splits entry.splits if_splits)

lemma main_success:
  assumes "open_r (fs w) inp = Inr bs" and "decode bs = Some txt"
    and "DictReader_list txt = Some data" and "open_w (fs w) out = Inr f"
  shows "main [prog, inp, out] w =
     (Returned, w\<lparr>fs := write_all f out (json_dump data),
                   events := events w @ [Open inp Reading, ReadAll inp, Close inp,
                                         Open out Writing, WriteAll out (json_dump data), Close out],
                   stdout := stdout w @ [success_line inp out]\<rparr>)"
  using assms
  by (simp add: main_def read_input_ok write_output_ok print_def)

subsection \<open>Argument validation\<close>

text \<open>
  C4. When the argument list, program name included, does not have exactly three
  entries, the run prints the usage line and ends by \<^verbatim>\<open>sys.exit(1)\<close>; the file system
  is as it was and no file call was made (the list of events is unchanged).
\<close>

theorem wrong_argument_count:
  "length argv \<noteq> 3 \<Longrightarrow>
   main argv w = (SysExit 1, w\<lparr>stdout := stdout w @ [usage]\<rparr>)
   \<and> exit_status (fst (main argv w)) = 1
   \<and> events (snd (main argv w)) = events w
   \<and> fs (snd (main argv w)) = fs w"
  by (simp add: main_def print_def)

theorem wrong_argument_count_witness:
  "length [''csv_to_json.py'', ''in.csv''] \<noteq> 3
   \<and> main [''csv_to_json.py'', ''in.csv''] (world_of []) =
       (SysExit 1, (world_of [])\<lparr>stdout := stdout (world_of []) @ [usage]\<rparr>)
   \<and> exit_status (fst (main [''csv_to_json.py'', ''in.csv''] (world_of []))) = 1
   \<and> events (snd (main [''csv_to_json.py'', ''in.csv''] (world_of []))) = events (world_of [])
   \<and> fs (snd (main [''csv_to_json.py'', ''in.csv''] (world_of []))) = fs (world_of [])"
  using wrong_argument_count [of "[''csv_to_json.py'', ''in.csv'']" "world_of []"] by simp

lemma world_of_open_r:
  "map_of files p = Some r \<Longrightarrow> readable r \<Longrightarrow> open_r (fs (world_of files)) p = Inr (content r)"
  by (simp add: world_of_def open_r_def)

lemma world_of_open_w_new:
  "map_of files p = None \<Longrightarrow>
   open_w (fs (world_of files)) p =
     Inr ((fs (world_of files))\<lparr>entries := (entries (fs (world_of files)))
            (p \<mapsto> File \<lparr>content = [], readable = True, writable = True\<rparr>)\<rparr>)"
  by (simp add: world_of_def open_w_def)

subsection \<open>A missing input file\<close>

text \<open>
  C5. When nothing exists at the input path, the run tries to open it, prints the
  not-found line and ends by \<^verbatim>\<open>sys.exit(1)\<close>. The output path is never opened: the
  only file call is the failed opening of the input, and the file system is as it was,
  so no output file has been created.
\<close>

theorem missing_input:
  "entries (fs w) inp = None \<Longrightarrow>
   main [prog, inp, out] w =
     (SysExit 1, w\<lparr>events := events w @ [Open inp Reading],
                   stdout := stdout w @ [not_found_line inp]\<rparr>)
   \<and> exit_status (fst (main [prog, inp, out] w)) = 1
   \<and> fs (snd (main [prog, inp, out] w)) = fs w"
  by (simp add: main_def read_input_fails open_r_def handle_def emit_def print_def)

theorem missing_input_witness:
  "entries (fs (world_of [])) ''in.csv'' = None
   \<and> main [''csv_to_json.py'', ''in.csv'', ''out.json''] (world_of []) =
     (SysExit 1, (world_of [])\<lparr>events := events (world_of []) @ [Open ''in.csv'' Reading],
                   stdout := stdout (world_of []) @ [not_found_line ''in.csv'']\<rparr>)
   \<and> exit_status (fst (main [''csv_to_json.py'', ''in.csv'', ''out.json''] (world_of []))) = 1
   \<and> fs (snd (main [''csv_to_json.py'', ''in.csv'', ''out.json''] (world_of []))) = fs (world_of [])"
proof -
  have h: "entries (fs (world_of [])) ''in.csv'' = None" by (simp add: world_of_def)
  show ?thesis
    using h missing_input [OF h, of "''csv_to_json.py''" "''out.json''"] by simp
qed

subsection \<open>The concrete scenario\<close>

lemma scenario_decode: "decode scenario_csv = Some (ustr_of scenario_csv)"
  by (simp add: decode_def ustr_of_def scenario_csv_def)

lemma scenario_lines:
  "readlines (universal_newlines (ustr_of scenario_csv)) =
     [ustr_of ''name,age\<newline>'', ustr_of ''Alice,30\<newline>'', ustr_of ''Bob,25\<newline>'']"
  by (simp add: universal_newlines_def ustr_of_def scenario_csv_def)

lemma scenario_rows:
  "reader_rows parse_reset
     [ustr_of ''name,age\<newline>'', ustr_of ''Alice,30\<newline>'', ustr_of ''Bob,25\<newline>'']
   = Some [[ustr_of ''name'', ustr_of ''age''], [ustr_of ''Alice'', ustr_of ''30''],
           [ustr_of ''Bob'', ustr_of ''25'']]"
  by (simp add: ustr_of_def feed_line_def parse_process_char_def start_field_def
        parse_add_char_def parse_save_field_def parse_reset_def field_limit_def)

lemma scenario_data:
  "DictReader_list (ustr_of scenario_csv) =
     Some [[(KStr (ustr_of ''name''), VStr (ustr_of ''Alice'')),
            (KStr (ustr_of ''age''), VStr (ustr_of ''30''))],
           [(KStr (ustr_of ''name''), VStr (ustr_of ''Bob'')),
            (KStr (ustr_of ''age''), VStr (ustr_of ''25''))]]"
proof -
  have "DictReader_list (ustr_of scenario_csv) =
     Some (map (row_dict [ustr_of ''name'', ustr_of ''age''])
       [[ustr_of ''Alice'', ustr_of ''30''], [ustr_of ''Bob'', ustr_of ''25'']])"
    by (simp only: DictReader_list_def csv_rows_def scenario_lines scenario_rows) simp
  then show ?thesis
    by (simp add: row_dict_def dict_zip_def ustr_of_def)
qed

lemma scenario_dump:
  "json_dump [[(KStr (ustr_of ''name''), VStr (ustr_of ''Alice'')),
               (KStr (ustr_of ''age''), VStr (ustr_of ''30''))],
              [(KStr (ustr_of ''name''), VStr (ustr_of ''Bob'')),
               (KStr (ustr_of ''age''), VStr (ustr_of ''25''))]]
   = scenario_json"
  by code_simp

text \<open>
  C3. Whenever the input file holds the three lines of the scenario and the output can
  be opened, the run returns normally and the output file holds the array of the two
  objects with the keys in header order and every level indented by four more spaces:
  each object spans four lines, one for each brace and one for each key.
\<close>

theorem concrete_scenario:
  assumes "open_r (fs w) inp = Inr scenario_csv" and "open_w (fs w) out = Inr f"
  shows "fst (main [prog, inp, out] w) = Returned
       \<and> file_content (fs (snd (main [prog, inp, out] w))) out = Some scenario_json"
  using main_success [OF assms(1) scenario_decode scenario_data assms(2), of prog]
    file_content_written [OF assms(2)]
  by (simp add: scenario_dump)

theorem concrete_scenario_witness:
  "open_r (fs (world_of [(''in.csv'', plain_file scenario_csv)])) ''in.csv'' = Inr scenario_csv
   \<and> open_w (fs (world_of [(''in.csv'', plain_file scenario_csv)])) ''out.json'' =
       Inr ((fs (world_of [(''in.csv'', plain_file scenario_csv)]))
             \<lparr>entries := (entries (fs (world_of [(''in.csv'', plain_file scenario_csv)])))
                (''out.json'' \<mapsto> File \<lparr>content = [], readable = True, writable = True\<rparr>)\<rparr>)
   \<and> fst (main [''csv_to_json.py'', ''in.csv'', ''out.json'']
         (world_of [(''in.csv'', plain_file scenario_csv)])) = Returned
   \<and> file_content (fs (snd (main [''csv_to_json.py'', ''in.csv'', ''out.json'']
         (world_of [(''in.csv'', plain_file scenario_csv)])))) ''out.json'' = Some scenario_json"
proof -
  let ?w = "world_of [(''in.csv'', plain_file scenario_csv)]"
  have r: "open_r (fs ?w) ''in.csv'' = Inr scenario_csv"
    using world_of_open_r [of "[(''in.csv'', plain_file scenario_csv)]" "''in.csv''"
        "plain_file scenario_csv"]
    by (simp add: plain_file_def)
  have w: "open_w (fs ?w) ''out.json'' =
       Inr ((fs ?w)\<lparr>entries := (entries (fs ?w))
                (''out.json'' \<mapsto> File \<lparr>content = [], readable = True, writable = True\<rparr>)\<rparr>)"
    using world_of_open_w_new [of "[(''in.csv'', plain_file scenario_csv)]" "''out.json''"]
    by simp
  show ?thesis
    using r w concrete_scenario [OF r w, of "''csv_to_json.py''"] by simp
qed

text \<open>
  The text the specification displays for the scenario, with each object on one line,
  is not what the run writes.
\<close>

theorem concrete_scenario_differs:
  "file_content (fs (snd (main [''csv_to_json.py'', ''in.csv'', ''out.json'']
        (world_of [(''in.csv'', plain_file scenario_csv)])))) ''out.json'' = Some scenario_json
   \<and> scenario_json \<noteq> spec_displayed_json"
proof -
  let ?w = "world_of [(''in.csv'', plain_file scenario_csv)]"
  have r: "open_r (fs ?w) ''in.csv'' = Inr scenario_csv"
    using world_of_open_r [of "[(''in.csv'', plain_file scenario_csv)]" "''in.csv''"
        "plain_file scenario_csv"]
    by (simp add: plain_file_def)
  have w: "open_w (fs ?w) ''out.json'' =
       Inr ((fs ?w)\<lparr>entries := (entries (fs ?w))
                (''out.json'' \<mapsto> File \<lparr>content = [], readable = True, writable = True\<rparr>)\<rparr>)"
    using world_of_open_w_new [of "[(''in.csv'', plain_file scenario_csv)]" "''out.json''"]
    by simp
  have "file_content (fs (snd (main [''csv_to_json.py'', ''in.csv'', ''out.json''] ?w))) ''out.json''
        = Some scenario_json"
    using main_success [OF r scenario_decode scenario_data w, of "''csv_to_json.py''"]
      file_content_written [OF w]
    by (simp add: scenario_dump)
  moreover have "scenario_json \<noteq> spec_displayed_json"
    by (simp add: scenario_json_def spec_displayed_json_def)
  ultimately show ?thesis by simp
qed

end
